theory Spec2Isabelle
  imports Main "HOL-Library.AList"
begin

section \<open>Python values\<close>

text \<open>
  The server (\<^verbatim>\<open>mcp_smart_colab_v2.py\<close>) moves JSON documents between a remote
  backend, checkpoint files and its callers. A document is what Python's \<^verbatim>\<open>json\<close>
  module reads: \<^verbatim>\<open>None\<close>, booleans, integers, strings, lists and dicts. A dict is an
  association list read with \<open>map_of\<close>; it keeps insertion order, as a Python dict does.
  JSON numbers with a fraction or an exponent (Python floats) are outside this model, and so
  are the interpreter's limits on very large integers; integers are unbounded, as in Python.
  A string is a list of characters, and \<^verbatim>\<open>s[:n]\<close> keeps its first \<open>n\<close> of them.
\<close>

datatype json =
    JNull
  | JBool bool
  | JInt int
  | JStr string
  | JArr "json list"
  | JObj "(string \<times> json) list"

type_synonym pydict = "(string \<times> json) list"

text \<open>The exceptions the modelled code can let escape.\<close>

datatype py_error =
    JSONDecodeError
  | AttributeError
  | TypeError
  | KeyError
  | ZeroDivisionError

text \<open>Truth value testing, as in \<^verbatim>\<open>if checkpoint:\<close>.\<close>

fun truthy :: "json \<Rightarrow> bool" where
  "truthy JNull = False"
| "truthy (JBool b) = b"
| "truthy (JInt i) = (i \<noteq> 0)"
| "truthy (JStr s) = (s \<noteq> [])"
| "truthy (JArr xs) = (xs \<noteq> [])"
| "truthy (JObj kv) = (kv \<noteq> [])"

text \<open>\<^verbatim>\<open>d.get(k, default)\<close> on a dict, and \<^verbatim>\<open>d[k]\<close>.\<close>

definition dict_get :: "pydict \<Rightarrow> string \<Rightarrow> json \<Rightarrow> json" where
  "dict_get d k dflt = (case map_of d k of None \<Rightarrow> dflt | Some v \<Rightarrow> v)"

definition subscript :: "pydict \<Rightarrow> string \<Rightarrow> py_error + json" where
  "subscript d k = (case map_of d k of None \<Rightarrow> Inl KeyError | Some v \<Rightarrow> Inr v)"

text \<open>
  \<^verbatim>\<open>x.get(k, default)\<close> on an arbitrary value: only a dict has the method, every other
  value raises AttributeError.
\<close>

fun py_get :: "json \<Rightarrow> string \<Rightarrow> json \<Rightarrow> py_error + json" where
  "py_get (JObj d) k dflt = Inr (dict_get d k dflt)"
| "py_get JNull k dflt = Inl AttributeError"
| "py_get (JBool b) k dflt = Inl AttributeError"
| "py_get (JInt i) k dflt = Inl AttributeError"
| "py_get (JStr s) k dflt = Inl AttributeError"
| "py_get (JArr xs) k dflt = Inl AttributeError"

text \<open>
  \<^verbatim>\<open>x[:n]\<close>: a string or a list is cut to its first \<open>n\<close> items; \<^verbatim>\<open>None\<close>, a
  boolean and an integer are not subscriptable, and a dict rejects a slice as a key
  (TypeError; KeyError from Python 3.12 on, where slices are hashable).
\<close>

fun slice_to :: "nat \<Rightarrow> json \<Rightarrow> py_error + json" where
  "slice_to n (JStr s) = Inr (JStr (take n s))"
| "slice_to n (JArr xs) = Inr (JArr (take n xs))"
| "slice_to n JNull = Inl TypeError"
| "slice_to n (JBool b) = Inl TypeError"
| "slice_to n (JInt i) = Inl TypeError"
| "slice_to n (JObj d) = Inl TypeError"

text \<open>\<^verbatim>\<open>str(i)\<close> of an integer, which is also what an f-string writes for it.\<close>

function str_nat :: "nat \<Rightarrow> string" where
  "str_nat n =
     (if n < 10 then [char_of (48 + n)]
      else str_nat (n div 10) @ [char_of (48 + n mod 10)])"
  by pat_completeness auto
termination
  by (relation "measure id") auto

declare str_nat.simps [simp del]

definition str_int :: "int \<Rightarrow> string" where
  "str_int i = (if i < 0 then ''-'' @ str_nat (nat (- i)) else str_nat (nat i))"

text \<open>
  The value \<^verbatim>\<open>start_idx\<close> read from a checkpoint, as the arithmetic and the f-strings
  of \<^verbatim>\<open>run_chunked_operation\<close> use it: the integer it contributes to
  \<^verbatim>\<open>start_idx + batch_size\<close> and to \<^verbatim>\<open>start_idx == 0\<close>, and the text an f-string writes
  for it. A boolean is an integer in Python (\<^verbatim>\<open>True + 10 == 11\<close>) and prints as
  \<^verbatim>\<open>True\<close> or \<^verbatim>\<open>False\<close>; adding an integer to \<^verbatim>\<open>None\<close>, a string, a list or a
  dict raises TypeError.
\<close>

fun int_operand :: "json \<Rightarrow> py_error + (int \<times> string)" where
  "int_operand (JInt i) = Inr (i, str_int i)"
| "int_operand (JBool b) = Inr (if b then (1, ''True'') else (0, ''False''))"
| "int_operand JNull = Inl TypeError"
| "int_operand (JStr s) = Inl TypeError"
| "int_operand (JArr xs) = Inl TypeError"
| "int_operand (JObj d) = Inl TypeError"


section \<open>Configuration\<close>

text \<open>
  \<^verbatim>\<open>COLAB_URL\<close> and \<^verbatim>\<open>CHECKPOINT_DIR\<close> are read from the environment once, when the
  module is loaded; the functions below take them as a record.
\<close>

record config =
  COLAB_URL :: string
  CHECKPOINT_DIR :: string

text \<open>The table \<^verbatim>\<open>TIMEOUTS\<close>, in seconds; the source keys it by the tier's name.\<close>

datatype tier = Quick | Normal | Long | Max

fun TIMEOUTS :: "tier \<Rightarrow> int" where
  "TIMEOUTS Quick = 30"
| "TIMEOUTS Normal = 120"
| "TIMEOUTS Long = 300"
| "TIMEOUTS Max = 600"


section \<open>The world: checkpoint files and the requests sent\<close>

text \<open>
  A checkpoint file holds text. \<open>Document j\<close> is text that \<^verbatim>\<open>json.load\<close> reads as \<open>j\<close>
  (what \<^verbatim>\<open>json.dump\<close> wrote for \<open>j\<close>); \<open>Garbage\<close> is text that \<^verbatim>\<open>json.load\<close> rejects.
  Files are found by the text of their path, and every write succeeds.
\<close>

datatype contents = Document json | Garbage

record request =
  req_method :: string
  req_url :: string
  req_timeout :: int
  req_json :: "json option"

record world =
  files :: "string \<rightharpoonup> contents"
  sent :: "request list"

text \<open>
  What \<^verbatim>\<open>requests.get\<close> or \<^verbatim>\<open>requests.post\<close> does with one request: it returns a
  response (its \<^verbatim>\<open>status_code\<close>, its \<^verbatim>\<open>text\<close>, and what \<^verbatim>\<open>response.json()\<close> gives:
  the parsed body, or the message of the exception it raises), or it raises
  \<^verbatim>\<open>requests.exceptions.Timeout\<close>, \<^verbatim>\<open>requests.exceptions.ConnectionError\<close>, or another
  exception with its message.
\<close>

datatype reply =
    Responded int string "string + json"
  | Raised_Timeout
  | Raised_ConnectionError
  | Raised_Exception string


section \<open>Utility functions\<close>

text \<open>
  \<^verbatim>\<open>get_checkpoint_path\<close>: the file of an operation on the day \<open>today\<close>, the text
  \<^verbatim>\<open>datetime.now().strftime('%Y%m%d')\<close> gives when the path is computed.
\<close>

definition get_checkpoint_path :: "config \<Rightarrow> string \<Rightarrow> string \<Rightarrow> string" where
  "get_checkpoint_path cfg today operation =
     CHECKPOINT_DIR cfg @ ''/'' @ operation @ ''_'' @ today @ ''.json''"

text \<open>
  \<^verbatim>\<open>save_checkpoint\<close> reads the clock twice: for the path (\<open>today\<close>) and for the
  record's timestamp (\<open>stamp\<close>, the text of \<^verbatim>\<open>datetime.now().isoformat()\<close>). It returns
  the path and the files after the write.
\<close>

definition save_checkpoint ::
  "config \<Rightarrow> string \<Rightarrow> string \<Rightarrow> (string \<rightharpoonup> contents) \<Rightarrow> string \<Rightarrow> json
     \<Rightarrow> string \<times> (string \<rightharpoonup> contents)" where
  "save_checkpoint cfg today stamp fs operation data =
     (let path = get_checkpoint_path cfg today operation
      in (path,
          fs(path \<mapsto> Document (JObj [(''timestamp'', JStr stamp),
                                      (''operation'', JStr operation),
                                      (''data'', data)]))))"

text \<open>\<^verbatim>\<open>load_checkpoint\<close>: \<^verbatim>\<open>None\<close> when today's file does not exist.\<close>

definition load_checkpoint ::
  "config \<Rightarrow> string \<Rightarrow> (string \<rightharpoonup> contents) \<Rightarrow> string \<Rightarrow> py_error + json option" where
  "load_checkpoint cfg today fs operation =
     (case fs (get_checkpoint_path cfg today operation) of
        None \<Rightarrow> Inr None
      | Some Garbage \<Rightarrow> Inl JSONDecodeError
      | Some (Document j) \<Rightarrow> Inr (Some j))"

text \<open>
  \<^verbatim>\<open>make_request\<close>: one request is sent (it joins \<open>sent\<close>), and what the transport did
  with it (\<open>rp\<close>) is turned into a result dict. \<^verbatim>\<open>except Timeout\<close> stands before
  \<^verbatim>\<open>except ConnectionError\<close>, so a connect timeout, which is both, counts as a timeout.
\<close>

definition make_request ::
  "config \<Rightarrow> reply \<Rightarrow> string \<Rightarrow> string \<Rightarrow> int \<Rightarrow> json option \<Rightarrow> world \<Rightarrow> pydict \<times> world" where
  "make_request cfg rp method endpoint timeout body w =
     (let url = COLAB_URL cfg @ endpoint;
          rq = \<lparr>req_method = (if method = ''GET'' then ''GET'' else ''POST''),
                req_url = url, req_timeout = timeout, req_json = body\<rparr>;
          w' = w\<lparr>sent := sent w @ [rq]\<rparr>
      in (case rp of
            Responded status_code text parsed \<Rightarrow>
              if status_code = 200 then
                (case parsed of
                   Inr data \<Rightarrow> [(''success'', JBool True), (''data'', data)]
                 | Inl msg \<Rightarrow> [(''success'', JBool False), (''error'', JStr msg)])
              else [(''success'', JBool False),
                    (''error'', JStr (''HTTP '' @ str_int status_code)),
                    (''body'', JStr (take 500 text))]
          | Raised_Timeout \<Rightarrow>
              [(''success'', JBool False),
               (''error'', JStr ''TIMEOUT''),
               (''suggestion'', JStr (''Operation took longer than '' @ str_int timeout @ ''s''))]
          | Raised_ConnectionError \<Rightarrow>
              [(''success'', JBool False),
               (''error'', JStr ''CONNECTION_FAILED''),
               (''url'', JStr (COLAB_URL cfg))]
          | Raised_Exception msg \<Rightarrow>
              [(''success'', JBool False), (''error'', JStr msg)],
          w'))"


section \<open>The chunked operation\<close>

text \<open>
  What one call of \<^verbatim>\<open>run_chunked_operation\<close> meets outside the program: the day the
  clock shows when the checkpoint is loaded, what the transport does with the request, and
  the day and the timestamp the clock shows when the checkpoint is saved (up to 330 seconds
  later).
\<close>

record chunk_env =
  load_day :: string
  transport :: reply
  save_day :: string
  save_stamp :: string

text \<open>
  Lines 315 to 318: where the last call left off. A file that holds an empty dict (or any
  other false value) counts as no checkpoint.
\<close>

definition start_idx_of :: "json option \<Rightarrow> py_error + json" where
  "start_idx_of checkpoint =
     (case checkpoint of
        None \<Rightarrow> Inr (JInt 0)
      | Some c \<Rightarrow>
          if truthy c then
            (case py_get c ''data'' (JObj []) of
               Inl e \<Rightarrow> Inl e
             | Inr d \<Rightarrow> py_get d ''completed'' (JInt 0))
          else Inr (JInt 0))"

text \<open>
  Lines 323 to 342: the code sent to the backend. \<open>start_val\<close> is the integer value of
  \<^verbatim>\<open>start_idx\<close> and \<open>start_txt\<close> the text an f-string writes for it. The f-string
  writes \<^verbatim>\<open>loop_code\<close> as it is, once, as the body of a \<^verbatim>\<open>for\<close> loop over the
  range; the text \<^verbatim>\<open>{i}\<close> in it is not replaced.
\<close>

definition full_code :: "string \<Rightarrow> string \<Rightarrow> int \<Rightarrow> string \<Rightarrow> int \<Rightarrow> string" where
  \<open>full_code setup_code loop_code start_val start_txt end_idx =
     (if start_val = 0 then
        ''\<newline>'' @ setup_code @ ''\<newline>\<newline>''
        @ ''# Chunked execution: iterations '' @ start_txt @ '' to '' @ str_int (end_idx - 1) @ ''\<newline>''
        @ ''for i in range('' @ start_txt @ '', '' @ str_int end_idx @ ''):\<newline>''
        @ ''    '' @ loop_code @ ''\<newline>\<newline>''
        @ ''print(f"Completed iterations '' @ start_txt @ '' to '' @ str_int (end_idx - 1) @ ''")\<newline>''
      else
        ''\<newline>''
        @ ''# Resuming chunked execution: iterations '' @ start_txt @ '' to '' @ str_int (end_idx - 1) @ ''\<newline>''
        @ ''for i in range('' @ start_txt @ '', '' @ str_int end_idx @ ''):\<newline>''
        @ ''    '' @ loop_code @ ''\<newline>\<newline>''
        @ ''print(f"Completed iterations '' @ start_txt @ '' to '' @ str_int (end_idx - 1) @ ''")\<newline>'')\<close>

text \<open>
  Line 354, the value stored as \<^verbatim>\<open>last_batch_output\<close>. It is computed before
  \<^verbatim>\<open>save_checkpoint\<close> is called, so an exception here leaves no checkpoint.
\<close>

definition last_batch_output :: "pydict \<Rightarrow> py_error + json" where
  "last_batch_output result =
     (case subscript result ''success'' of
        Inl e \<Rightarrow> Inl e
      | Inr ok \<Rightarrow>
          if truthy ok then
            (case py_get (dict_get result ''data'' (JObj [])) ''stdout'' (JStr []) of
               Inl e \<Rightarrow> Inl e
             | Inr out \<Rightarrow> slice_to 1000 out)
          else Inr (JStr []))"

text \<open>
  The dict returned on lines 357 to 365. \<^verbatim>\<open>progress_pct\<close> is the float
  \<^verbatim>\<open>round(end_idx / n_iterations * 100, 1)\<close>; the record keeps the two integers it is
  computed from, and the division raises ZeroDivisionError when \<^verbatim>\<open>n_iterations\<close> is 0.
  The key \<^verbatim>\<open>output\<close> is the field \<open>output_text\<close>.
\<close>

record chunk_result =
  completed :: int
  remaining :: int
  progress_pct :: "int \<times> int"
  output_text :: json
  success :: json
  can_continue :: bool
  next_command :: "string option"

definition output_of :: "pydict \<Rightarrow> py_error + json" where
  "output_of result =
     (case subscript result ''success'' of
        Inl e \<Rightarrow> Inl e
      | Inr ok \<Rightarrow>
          if truthy ok then py_get (dict_get result ''data'' (JObj [])) ''stdout'' (JStr [])
          else Inr (dict_get result ''error'' JNull))"

definition chunk_return :: "pydict \<Rightarrow> int \<Rightarrow> int \<Rightarrow> string \<Rightarrow> py_error + chunk_result" where
  "chunk_return result end_idx n_iterations checkpoint_name =
     (if n_iterations = 0 then Inl ZeroDivisionError
      else
        (case output_of result of
           Inl e \<Rightarrow> Inl e
         | Inr out \<Rightarrow>
             (case subscript result ''success'' of
                Inl e \<Rightarrow> Inl e
              | Inr ok \<Rightarrow>
                  Inr \<lparr>completed = end_idx,
                       remaining = n_iterations - end_idx,
                       progress_pct = (end_idx, n_iterations),
                       output_text = out,
                       success = ok,
                       can_continue = (end_idx < n_iterations),
                       next_command =
                         (if end_idx < n_iterations
                          then Some (''run_chunked_operation(..., checkpoint_name='' @ [CHR 0x27]
                                     @ checkpoint_name @ [CHR 0x27] @ '')'')
                          else None)\<rparr>)))"

text \<open>
  \<^verbatim>\<open>run_chunked_operation\<close>, lines 314 to 365, with all five arguments given. An
  exception ends the call where it is raised: the world keeps what was done before it.
\<close>

definition run_chunked_operation ::
  "config \<Rightarrow> chunk_env \<Rightarrow> string \<Rightarrow> string \<Rightarrow> int \<Rightarrow> int \<Rightarrow> string \<Rightarrow> world
     \<Rightarrow> (py_error + chunk_result) \<times> world" where
  "run_chunked_operation cfg env setup_code loop_code n_iterations batch_size checkpoint_name w =
     (case load_checkpoint cfg (load_day env) (files w) checkpoint_name of
        Inl e \<Rightarrow> (Inl e, w)
      | Inr checkpoint \<Rightarrow>
     (case start_idx_of checkpoint of
        Inl e \<Rightarrow> (Inl e, w)
      | Inr start_idx \<Rightarrow>
     (case int_operand start_idx of
        Inl e \<Rightarrow> (Inl e, w)
      | Inr (start_val, start_txt) \<Rightarrow>
          let end_idx = min (start_val + batch_size) n_iterations;
              code = full_code setup_code loop_code start_val start_txt end_idx;
              (result, w1) =
                make_request cfg (transport env) ''POST'' ''/execute'' (TIMEOUTS Long + 30)
                  (Some (JObj [(''code'', JStr code), (''timeout'', JInt (TIMEOUTS Long))])) w
          in
     (case last_batch_output result of
        Inl e \<Rightarrow> (Inl e, w1)
      | Inr out \<Rightarrow>
          let (path, fs2) =
                save_checkpoint cfg (save_day env) (save_stamp env) (files w1) checkpoint_name
                  (JObj [(''completed'', JInt end_idx),
                         (''total'', JInt n_iterations),
                         (''last_batch_output'', out)]);
              w2 = w1\<lparr>files := fs2\<rparr>
          in (chunk_return result end_idx n_iterations checkpoint_name, w2)))))"



section \<open>Checkpoint lookup\<close>

text \<open>
  \<^verbatim>\<open>{"exists": True, **checkpoint}\<close>: the keys of the checkpoint are written over the
  dict that holds \<^verbatim>\<open>exists\<close>; a key already there keeps its place and takes the new
  value.
\<close>

definition dict_update :: "pydict \<Rightarrow> pydict \<Rightarrow> pydict" where
  "dict_update d new = fold (\<lambda>(k, v). AList.update k v) new d"

text \<open>
  \<^verbatim>\<open>get_checkpoint\<close>, lines 504 to 508. Unpacking with \<^verbatim>\<open>**\<close> needs a mapping: a
  true value that is not a dict raises TypeError.
\<close>

definition get_checkpoint ::
  "config \<Rightarrow> string \<Rightarrow> (string \<rightharpoonup> contents) \<Rightarrow> string \<Rightarrow> py_error + pydict" where
  "get_checkpoint cfg today fs operation =
     (case load_checkpoint cfg today fs operation of
        Inl e \<Rightarrow> Inl e
      | Inr checkpoint \<Rightarrow>
          (case checkpoint of
             None \<Rightarrow>
               Inr [(''exists'', JBool False),
                    (''message'', JStr (''No checkpoint found for '' @ [CHR 0x27] @ operation @ [CHR 0x27]))]
           | Some c \<Rightarrow>
               if truthy c then
                 (case c of
                    JObj kv \<Rightarrow> Inr (dict_update [(''exists'', JBool True)] kv)
                  | JNull \<Rightarrow> Inl TypeError
                  | JBool b \<Rightarrow> Inl TypeError
                  | JInt i \<Rightarrow> Inl TypeError
                  | JStr s \<Rightarrow> Inl TypeError
                  | JArr xs \<Rightarrow> Inl TypeError)
               else
                 Inr [(''exists'', JBool False),
                      (''message'', JStr (''No checkpoint found for '' @ [CHR 0x27] @ operation @ [CHR 0x27]))]))"


section \<open>Notions used to state the properties\<close>

text \<open>
  \<open>resume_offset\<close> is the value of \<^verbatim>\<open>start_idx\<close> after lines 315 to 318: what a call
  of \<^verbatim>\<open>run_chunked_operation\<close> made on the day \<open>today\<close> resumes from.
  \<open>saved_completed\<close> reads the \<^verbatim>\<open>completed\<close> entry of a stored checkpoint's data.
  A reply is well formed when \<^verbatim>\<open>run_chunked_operation\<close> can take its output from it: any
  failure is, and a success is when its body is a dict whose \<^verbatim>\<open>stdout\<close>, if there is
  one, is a string or a list. \<open>execute_request\<close> is the one request a call sends.
\<close>

definition resume_offset :: "config \<Rightarrow> string \<Rightarrow> (string \<rightharpoonup> contents) \<Rightarrow> string \<Rightarrow> py_error + json" where
  "resume_offset cfg today fs operation =
     (case load_checkpoint cfg today fs operation of
        Inl e \<Rightarrow> Inl e
      | Inr checkpoint \<Rightarrow> start_idx_of checkpoint)"

definition saved_completed :: "contents option \<Rightarrow> json option" where
  "saved_completed c =
     (case c of
        Some (Document (JObj kv)) \<Rightarrow>
          (case map_of kv ''data'' of
             Some (JObj d) \<Rightarrow> map_of d ''completed''
           | _ \<Rightarrow> None)
      | _ \<Rightarrow> None)"

definition stdout_sliceable :: "json \<Rightarrow> bool" where
  "stdout_sliceable data =
     (case data of
        JObj d \<Rightarrow>
          (case dict_get d ''stdout'' (JStr []) of
             JStr s \<Rightarrow> True
           | JArr xs \<Rightarrow> True
           | _ \<Rightarrow> False)
      | _ \<Rightarrow> False)"

definition well_formed_reply :: "reply \<Rightarrow> bool" where
  "well_formed_reply rp =
     (case rp of
        Responded status_code text parsed \<Rightarrow>
          (if status_code = 200
           then (case parsed of Inl msg \<Rightarrow> True | Inr data \<Rightarrow> stdout_sliceable data)
           else True)
      | _ \<Rightarrow> True)"

definition execute_request :: "config \<Rightarrow> string \<Rightarrow> request" where
  "execute_request cfg code =
     \<lparr>req_method = ''POST'', req_url = COLAB_URL cfg @ ''/execute'',
      req_timeout = TIMEOUTS Long + 30,
      req_json = Some (JObj [(''code'', JStr code), (''timeout'', JInt (TIMEOUTS Long))])\<rparr>"

text \<open>The code of the last request sent.\<close>

definition dispatched_code :: "world \<Rightarrow> json option" where
  "dispatched_code w =
     (case rev (sent w) of
        [] \<Rightarrow> None
      | rq # earlier \<Rightarrow>
          (case req_json rq of
             Some (JObj kv) \<Rightarrow> map_of kv ''code''
           | _ \<Rightarrow> None))"

text \<open>
  Reading a decimal numeral back: the number a string of digits stands for, with a leading
  minus sign for a negative one.
\<close>

definition decimal_value :: "string \<Rightarrow> nat" where
  "decimal_value s = foldl (\<lambda>acc c. 10 * acc + (of_char c - 48)) 0 s"

definition int_value :: "string \<Rightarrow> int" where
  "int_value s =
     (case s of
        [] \<Rightarrow> 0
      | c # cs \<Rightarrow> if c = CHR ''-'' then - int (decimal_value cs) else int (decimal_value s))"


text \<open>
  Inputs for the examples: a configuration, a world with no file and no request, and the
  environment of a call that starts and ends on the day \<open>d\<close>.
\<close>

definition example_config :: config where
  "example_config = \<lparr>COLAB_URL = ''http://colab.test'', CHECKPOINT_DIR = ''/ckpt''\<rparr>"

definition empty_world :: world where
  "empty_world = \<lparr>files = Map.empty, sent = []\<rparr>"

definition on_day :: "string \<Rightarrow> reply \<Rightarrow> chunk_env" where
  "on_day d rp = \<lparr>load_day = d, transport = rp, save_day = d, save_stamp = d @ ''T12:00:00''\<rparr>"

text \<open>A success whose body is a dict with the output \<open>out\<close>.\<close>

definition ok_reply :: "string \<Rightarrow> reply" where
  "ok_reply out = Responded 200 [] (Inr (JObj [(''stdout'', JStr out)]))"

text \<open>The world after a job of five iterations has run all of them in one batch.\<close>

definition finished_world :: world where
  "finished_world =
     snd (run_chunked_operation example_config (on_day ''20260101'' (ok_reply []))
            ''x=1'' ''print(i)'' 5 5 ''job'' empty_world)"

text \<open>
  What a caller sees of a result: the pair of \<^verbatim>\<open>completed\<close> and
  \<^verbatim>\<open>can_continue\<close>, or nothing when the call raised.
\<close>

definition progress_of :: "py_error + chunk_result \<Rightarrow> (int \<times> bool) option" where
  "progress_of res = (case res of Inl e \<Rightarrow> None | Inr r \<Rightarrow> Some (completed r, can_continue r))"

text \<open>
  A world whose only file is today's checkpoint of \<^verbatim>\<open>job\<close>, cut short while it was
  written.
\<close>

definition torn_world :: world where
  "torn_world =
     \<lparr>files = Map.empty(get_checkpoint_path example_config ''20260101'' ''job'' \<mapsto> Garbage),
      sent = []\<rparr>"


section \<open>Decimal numerals\<close>

lemma digit_char_value:
  assumes "d < 10"
  shows "of_char (char_of (48 + d)) - 48 = (d::nat)"
proof -
  have "of_char (char_of (48 + d)) = (48 + d) mod 256"
    by (simp add: of_char_of)
  also have "\<dots> = 48 + d" using assms by simp
  finally show ?thesis by simp
qed

lemma digit_char_not_minus:
  assumes "d < 10"
  shows "char_of (48 + (d::nat)) \<noteq> CHR ''-''"
proof
  assume "char_of (48 + d) = CHR ''-''"
  then have "(of_char (char_of (48 + d)) :: nat) = of_char CHR ''-''" by simp
  then have "(48 + d) mod 256 = (45::nat)" by (simp add: of_char_of)
  with assms show False by simp
qed

lemma decimal_value_snoc:
  "decimal_value (s @ [c]) = 10 * decimal_value s + (of_char c - 48)"
  by (simp add: decimal_value_def)

lemma decimal_value_str_nat: "decimal_value (str_nat n) = n"
proof (induction n rule: str_nat.induct)
  case (1 n)
  show ?case
  proof (cases "n < 10")
    case True
    then show ?thesis
      using digit_char_value [of n] by (simp add: str_nat.simps [of n] decimal_value_def)
  next
    case False
    have "n mod 10 < 10" by simp
    with False "1.IH" show ?thesis
      using digit_char_value [of "n mod 10"]
      by (simp add: str_nat.simps [of n] decimal_value_snoc)
  qed
qed

lemma str_nat_head: "str_nat n \<noteq> [] \<and> hd (str_nat n) \<noteq> CHR ''-''"
proof (induction n rule: str_nat.induct)
  case (1 n)
  show ?case
  proof (cases "n < 10")
    case True
    then show ?thesis
      using digit_char_not_minus [of n] by (simp add: str_nat.simps [of n])
  next
    case False
    with "1.IH" show ?thesis
      by (simp add: str_nat.simps [of n])
  qed
qed

lemma int_value_str_int: "int_value (str_int i) = i"
proof (cases "i < 0")
  case True
  then show ?thesis
    by (simp add: str_int_def int_value_def decimal_value_str_nat)
next
  case False
  obtain c cs where s: "str_nat (nat i) = c # cs" and c: "c \<noteq> CHR ''-''"
    using str_nat_head [of "nat i"] by (cases "str_nat (nat i)") auto
  have "decimal_value (c # cs) = nat i"
    using decimal_value_str_nat [of "nat i"] by (simp add: s)
  with False c show ?thesis
    by (simp add: str_int_def int_value_def s)
qed

lemma str_int_inject: "(str_int a = str_int b) = (a = b)"
  by (metis int_value_str_int)


section \<open>One call, step by step\<close>

lemma make_request_world:
  "snd (make_request cfg rp method endpoint timeout body w) =
     w\<lparr>sent := sent w @ [\<lparr>req_method = (if method = ''GET'' then ''GET'' else ''POST''),
                           req_url = COLAB_URL cfg @ endpoint, req_timeout = timeout,
                           req_json = body\<rparr>]\<rparr>"
  by (simp add: make_request_def Let_def)

lemma make_request_success:
  "\<exists>ok. subscript (fst (make_request cfg rp method endpoint timeout body w)) ''success'' = Inr (JBool ok)"
  by (cases rp) (auto simp: make_request_def Let_def subscript_def split: sum.splits)

lemma make_request_result_indep:
  "fst (make_request cfg rp method endpoint timeout body w) =
   fst (make_request cfg rp method endpoint timeout body' w')"
  by (simp add: make_request_def Let_def)

lemma well_formed_failures:
  "well_formed_reply Raised_Timeout" "well_formed_reply Raised_ConnectionError"
  "well_formed_reply (Raised_Exception msg)" "well_formed_reply (ok_reply out)"
  by (simp_all add: well_formed_reply_def ok_reply_def stdout_sliceable_def dict_get_def)

lemma well_formed_last_batch_output:
  assumes "well_formed_reply rp"
  shows "\<exists>out. last_batch_output (fst (make_request cfg rp method endpoint timeout body w)) = Inr out"
proof (cases rp)
  case (Responded status_code body_text parsed)
  show ?thesis
  proof (cases "status_code = 200")
    case True
    show ?thesis
    proof (cases parsed)
      case (Inl msg)
      with Responded True show ?thesis
        by (simp add: make_request_def Let_def last_batch_output_def subscript_def)
    next
      case (Inr data)
      with Responded True assms have "stdout_sliceable data"
        by (simp add: well_formed_reply_def)
      then obtain d where d: "data = JObj d"
        by (cases data) (simp_all add: stdout_sliceable_def)
      with \<open>stdout_sliceable data\<close> have "\<exists>out. slice_to 1000 (dict_get d ''stdout'' (JStr [])) = Inr out"
        by (cases "dict_get d ''stdout'' (JStr [])") (simp_all add: stdout_sliceable_def)
      with Responded True Inr d show ?thesis
        by (auto simp add: make_request_def Let_def last_batch_output_def subscript_def dict_get_def)
    qed
  next
    case False
    with Responded show ?thesis
      by (simp add: make_request_def Let_def last_batch_output_def subscript_def)
  qed
qed (simp_all add: make_request_def Let_def last_batch_output_def subscript_def)

lemma well_formed_output_of:
  assumes "well_formed_reply rp"
  shows "\<exists>out. output_of (fst (make_request cfg rp method endpoint timeout body w)) = Inr out"
proof (cases rp)
  case (Responded status_code body_text parsed)
  show ?thesis
  proof (cases "status_code = 200")
    case True
    show ?thesis
    proof (cases parsed)
      case (Inl msg)
      with Responded True show ?thesis
        by (simp add: make_request_def Let_def output_of_def subscript_def)
    next
      case (Inr data)
      with Responded True assms have "stdout_sliceable data"
        by (simp add: well_formed_reply_def)
      then obtain d where d: "data = JObj d"
        by (cases data) (simp_all add: stdout_sliceable_def)
      with Responded True Inr d show ?thesis
        by (auto simp add: make_request_def Let_def output_of_def subscript_def dict_get_def)
    qed
  next
    case False
    with Responded show ?thesis
      by (simp add: make_request_def Let_def output_of_def subscript_def)
  qed
qed (simp_all add: make_request_def Let_def output_of_def subscript_def)

lemma run_reaches_save:
  assumes off: "resume_offset cfg (load_day env) (files w) name = Inr v"
    and op: "int_operand v = Inr (sv, st)"
    and wf: "well_formed_reply (transport env)"
  shows "\<exists>result out.
           result = fst (make_request cfg (transport env) ''POST'' ''/execute'' 330
               (Some (JObj [(''code'', JStr (full_code setup_code loop_code sv st (min (sv + b) n))),
                            (''timeout'', JInt 300)])) w)
         \<and> last_batch_output result = Inr out
         \<and> run_chunked_operation cfg env setup_code loop_code n b name w =
             (chunk_return result (min (sv + b) n) n name,
              w\<lparr>sent := sent w @ [execute_request cfg (full_code setup_code loop_code sv st (min (sv + b) n))],
                files := (files w)(get_checkpoint_path cfg (save_day env) name \<mapsto>
                   Document (JObj [(''timestamp'', JStr (save_stamp env)),
                                   (''operation'', JStr name),
                                   (''data'', JObj [(''completed'', JInt (min (sv + b) n)),
                                                    (''total'', JInt n),
                                                    (''last_batch_output'', out)])]))\<rparr>)"
proof -
  define body where "body = Some (JObj [(''code'', JStr (full_code setup_code loop_code sv st (min (sv + b) n))),
                            (''timeout'', JInt 300)])"
  define result where "result = fst (make_request cfg (transport env) ''POST'' ''/execute'' 330 body w)"
  obtain out where out: "last_batch_output result = Inr out"
    using well_formed_last_batch_output [OF wf] unfolding result_def by blast
  from off obtain ck where ld: "load_checkpoint cfg (load_day env) (files w) name = Inr ck"
    and st: "start_idx_of ck = Inr v"
    by (auto simp: resume_offset_def split: sum.splits)
  have mr: "make_request cfg (transport env) ''POST'' ''/execute'' 330 body w =
        (result, w\<lparr>sent := sent w @ [execute_request cfg (full_code setup_code loop_code sv st (min (sv + b) n))]\<rparr>)"
    by (simp add: prod_eq_iff result_def make_request_world execute_request_def body_def)
  have "run_chunked_operation cfg env setup_code loop_code n b name w =
             (chunk_return result (min (sv + b) n) n name,
              w\<lparr>sent := sent w @ [execute_request cfg (full_code setup_code loop_code sv st (min (sv + b) n))],
                files := (files w)(get_checkpoint_path cfg (save_day env) name \<mapsto>
                   Document (JObj [(''timestamp'', JStr (save_stamp env)),
                                   (''operation'', JStr name),
                                   (''data'', JObj [(''completed'', JInt (min (sv + b) n)),
                                                    (''total'', JInt n),
                                                    (''last_batch_output'', out)])]))\<rparr>)"
    using mr out
    by (simp add: run_chunked_operation_def ld st op Let_def body_def save_checkpoint_def)
  with out show ?thesis
    unfolding result_def body_def by blast
qed

lemma run_sends:
  assumes off: "resume_offset cfg (load_day env) (files w) name = Inr v"
    and op: "int_operand v = Inr (sv, st)"
  shows "sent (snd (run_chunked_operation cfg env setup_code loop_code n b name w))
           = sent w @ [execute_request cfg (full_code setup_code loop_code sv st (min (sv + b) n))]"
proof -
  define body where "body = Some (JObj [(''code'', JStr (full_code setup_code loop_code sv st (min (sv + b) n))),
                            (''timeout'', JInt 300)])"
  define result where "result = fst (make_request cfg (transport env) ''POST'' ''/execute'' 330 body w)"
  from off obtain ck where ld: "load_checkpoint cfg (load_day env) (files w) name = Inr ck"
    and st: "start_idx_of ck = Inr v"
    by (auto simp: resume_offset_def split: sum.splits)
  have mr: "make_request cfg (transport env) ''POST'' ''/execute'' 330 body w =
        (result, w\<lparr>sent := sent w @ [execute_request cfg (full_code setup_code loop_code sv st (min (sv + b) n))]\<rparr>)"
    by (simp add: prod_eq_iff result_def make_request_world execute_request_def body_def)
  show ?thesis
    using mr
    by (cases "last_batch_output result")
       (simp_all add: run_chunked_operation_def ld st op Let_def body_def save_checkpoint_def)
qed

lemma chunk_return_ok:
  assumes "n \<noteq> 0" and "output_of result = Inr out" and "subscript result ''success'' = Inr ok"
  shows "\<exists>r. chunk_return result e n name = Inr r
           \<and> completed r = e \<and> remaining r = n - e \<and> can_continue r = (e < n)
           \<and> progress_pct r = (e, n) \<and> output_text r = out \<and> success r = ok
           \<and> next_command r =
               (if e < n
                then Some (''run_chunked_operation(..., checkpoint_name='' @ [CHR 0x27] @ name @ [CHR 0x27] @ '')'')
                else None)"
  using assms by (simp add: chunk_return_def)

lemma run_result_from_reply:
  assumes off: "resume_offset cfg (load_day env) (files w) name = Inr (JInt s)"
    and wf: "well_formed_reply (transport env)"
  shows "fst (run_chunked_operation cfg env setup_code loop_code n b name w) =
           chunk_return (fst (make_request cfg (transport env) ''POST'' ''/execute'' 330 None w0))
             (min (s + b) n) n name"
proof -
  have op: "int_operand (JInt s) = Inr (s, str_int s)" by simp
  from run_reaches_save [OF off op wf, of setup_code loop_code b n]
  show ?thesis
    using make_request_result_indep [of cfg "transport env" "''POST''" "''/execute''" 330 _ w None w0]
    by auto
qed

lemma resume_offset_absent:
  "fs (get_checkpoint_path cfg today name) = None \<Longrightarrow> resume_offset cfg today fs name = Inr (JInt 0)"
  by (simp add: resume_offset_def load_checkpoint_def start_idx_of_def)

lemma resume_offset_saved:
  "resume_offset cfg today
     (fs(get_checkpoint_path cfg today name \<mapsto>
        Document (JObj [(''timestamp'', ts), (''operation'', opn),
                        (''data'', JObj ((''completed'', c) # rest))]))) name = Inr c"
  by (simp add: resume_offset_def load_checkpoint_def start_idx_of_def dict_get_def)


lemma run_step:
  assumes off: "resume_offset cfg (load_day env) (files w) name = Inr (JInt s)"
    and wf: "well_formed_reply (transport env)"
    and n0: "n \<noteq> 0"
  shows "\<exists>r out.
           run_chunked_operation cfg env setup_code loop_code n b name w =
             (Inr r,
              w\<lparr>sent := sent w @ [execute_request cfg (full_code setup_code loop_code s (str_int s) (min (s + b) n))],
                files := (files w)(get_checkpoint_path cfg (save_day env) name \<mapsto>
                   Document (JObj [(''timestamp'', JStr (save_stamp env)),
                                   (''operation'', JStr name),
                                   (''data'', JObj [(''completed'', JInt (min (s + b) n)),
                                                    (''total'', JInt n),
                                                    (''last_batch_output'', out)])]))\<rparr>)
         \<and> completed r = min (s + b) n \<and> remaining r = n - min (s + b) n
         \<and> can_continue r = (min (s + b) n < n)
         \<and> next_command r =
               (if min (s + b) n < n
                then Some (''run_chunked_operation(..., checkpoint_name='' @ [CHR 0x27] @ name @ [CHR 0x27] @ '')'')
                else None)"
proof -
  have op: "int_operand (JInt s) = Inr (s, str_int s)" by simp
  from run_reaches_save [OF off op wf, of setup_code loop_code b n]
  obtain result out where
    res: "result = fst (make_request cfg (transport env) ''POST'' ''/execute'' 330
               (Some (JObj [(''code'', JStr (full_code setup_code loop_code s (str_int s) (min (s + b) n))),
                            (''timeout'', JInt 300)])) w)"
    and run: "run_chunked_operation cfg env setup_code loop_code n b name w =
             (chunk_return result (min (s + b) n) n name,
              w\<lparr>sent := sent w @ [execute_request cfg (full_code setup_code loop_code s (str_int s) (min (s + b) n))],
                files := (files w)(get_checkpoint_path cfg (save_day env) name \<mapsto>
                   Document (JObj [(''timestamp'', JStr (save_stamp env)),
                                   (''operation'', JStr name),
                                   (''data'', JObj [(''completed'', JInt (min (s + b) n)),
                                                    (''total'', JInt n),
                                                    (''last_batch_output'', out)])]))\<rparr>)"
    by blast
  obtain o2 where o2: "output_of result = Inr o2"
    using well_formed_output_of [OF wf] unfolding res by blast
  obtain ok where ok: "subscript result ''success'' = Inr (JBool ok)"
    using make_request_success unfolding res by blast
  from chunk_return_ok [OF n0 o2 ok, of "min (s + b) n" name]
  obtain r where "chunk_return result (min (s + b) n) n name = Inr r"
    and "completed r = min (s + b) n" and "remaining r = n - min (s + b) n"
    and "can_continue r = (min (s + b) n < n)"
    and "next_command r =
               (if min (s + b) n < n
                then Some (''run_chunked_operation(..., checkpoint_name='' @ [CHR 0x27] @ name @ [CHR 0x27] @ '')'')
                else None)"
    by blast
  with run show ?thesis by auto
qed



section \<open>A sequence of calls\<close>




section \<open>The examples\<close>

lemma str_int_examples:
  "str_int 0 = ''0''" "str_int 4 = ''4''" "str_int 5 = ''5''" "str_int 330 = ''330''" "str_int (- 3) = ''-3''"
  "str_int 10 = ''10''" "str_int 9 = ''9''" "str_int 19 = ''19''" "str_int 20 = ''20''"
  "str_int 1 = ''1''" "str_int 2 = ''2''" "str_int 99 = ''99''" "str_int 100 = ''100''"
  by code_simp+

lemma finished_world_eval:
  "files finished_world (get_checkpoint_path example_config ''20260101'' ''job'') =
     Some (Document (JObj [(''timestamp'', JStr ''20260101T12:00:00''), (''operation'', JStr ''job''),
        (''data'', JObj [(''completed'', JInt 5), (''total'', JInt 5), (''last_batch_output'', JStr [])])]))"
  "length (sent finished_world) = 1"
  by (simp_all add: finished_world_def example_config_def on_day_def empty_world_def ok_reply_def
        run_chunked_operation_def load_checkpoint_def start_idx_of_def make_request_def
        last_batch_output_def subscript_def save_checkpoint_def dict_get_def Let_def)

lemma finished_world_offset:
  "resume_offset example_config ''20260101'' (files finished_world) ''job'' = Inr (JInt 5)"
  by (simp add: resume_offset_def load_checkpoint_def finished_world_eval start_idx_of_def dict_get_def)


section \<open>Progress recorded by a call\<close>





section \<open>Arguments are not validated\<close>





section \<open>Resuming after the last batch\<close>

text \<open>
  C3 (as amended). Take a call whose loaded checkpoint records an integer
  \<open>start \<ge> n_iterations\<close>, with \<open>batch_size \<ge> 0\<close>, \<open>n_iterations \<noteq> 0\<close> and a well-formed
  reply. The call still sends one request (for the empty range from \<open>start\<close> to
  \<open>n_iterations\<close>); it returns \<open>can_continue = False\<close>, \<open>completed = n_iterations\<close> and
  \<open>remaining = 0\<close>. A second call that loads on the day of the first call's save sends one
  more request and returns the same progress; with the same reply it returns the same result.
\<close>

theorem C3_resume_after_final:
  assumes "resume_offset cfg (load_day env) (files w) checkpoint_name = Inr (JInt start)"
    and "n_iterations \<le> start" and "0 \<le> batch_size" and "n_iterations \<noteq> 0"
    and "well_formed_reply (transport env)"
    and "well_formed_reply (transport env2)"
    and "load_day env2 = save_day env"
  shows "\<exists>r1 w1 r2 w2.
           run_chunked_operation cfg env setup_code loop_code n_iterations batch_size
             checkpoint_name w = (Inr r1, w1)
         \<and> run_chunked_operation cfg env2 setup_code loop_code n_iterations batch_size
             checkpoint_name w1 = (Inr r2, w2)
         \<and> can_continue r1 = False \<and> completed r1 = n_iterations \<and> remaining r1 = 0
         \<and> next_command r1 = None
         \<and> can_continue r2 = False \<and> completed r2 = n_iterations \<and> remaining r2 = 0
         \<and> next_command r2 = None
         \<and> sent w1 = sent w @ [execute_request cfg
               (full_code setup_code loop_code start (str_int start) n_iterations)]
         \<and> sent w2 = sent w1 @ [execute_request cfg
               (full_code setup_code loop_code n_iterations (str_int n_iterations) n_iterations)]
         \<and> (if transport env2 = transport env then r2 = r1 else True)"
proof -
  have e1: "min (start + batch_size) n_iterations = n_iterations"
    using assms(2,3) by simp
  have e2: "min (n_iterations + batch_size) n_iterations = n_iterations"
    using assms(3) by simp
  note step1 = run_step [OF assms(1) assms(5) assms(4), of setup_code loop_code batch_size,
      unfolded e1]
  from step1 obtain r1 out1 where
    run1: "run_chunked_operation cfg env setup_code loop_code n_iterations batch_size checkpoint_name w =
       (Inr r1,
        w\<lparr>sent := sent w @ [execute_request cfg (full_code setup_code loop_code start (str_int start)
                                n_iterations)],
          files := (files w)(get_checkpoint_path cfg (save_day env) checkpoint_name \<mapsto>
             Document (JObj [(''timestamp'', JStr (save_stamp env)),
                             (''operation'', JStr checkpoint_name),
                             (''data'', JObj [(''completed'', JInt n_iterations),
                                              (''total'', JInt n_iterations),
                                              (''last_batch_output'', out1)])]))\<rparr>)"
    and r1: "completed r1 = n_iterations" "remaining r1 = n_iterations - n_iterations"
      "can_continue r1 = (n_iterations < n_iterations)"
      "next_command r1 = (if n_iterations < n_iterations
                then Some (''run_chunked_operation(..., checkpoint_name='' @ [CHR 0x27] @ checkpoint_name @ [CHR 0x27] @ '')'')
                else None)"
    by blast
  define w1 where "w1 =
        w\<lparr>sent := sent w @ [execute_request cfg (full_code setup_code loop_code start (str_int start)
                                n_iterations)],
          files := (files w)(get_checkpoint_path cfg (save_day env) checkpoint_name \<mapsto>
             Document (JObj [(''timestamp'', JStr (save_stamp env)),
                             (''operation'', JStr checkpoint_name),
                             (''data'', JObj [(''completed'', JInt n_iterations),
                                              (''total'', JInt n_iterations),
                                              (''last_batch_output'', out1)])]))\<rparr>"
  have off2: "resume_offset cfg (load_day env2) (files w1) checkpoint_name = Inr (JInt n_iterations)"
    by (simp add: w1_def assms(7) resume_offset_saved)
  note step2 = run_step [OF off2 assms(6) assms(4), of setup_code loop_code batch_size,
      unfolded e2]
  from step2 obtain r2 out2 where
    run2: "run_chunked_operation cfg env2 setup_code loop_code n_iterations batch_size checkpoint_name w1 =
       (Inr r2,
        w1\<lparr>sent := sent w1 @ [execute_request cfg (full_code setup_code loop_code n_iterations
                                 (str_int n_iterations) n_iterations)],
          files := (files w1)(get_checkpoint_path cfg (save_day env2) checkpoint_name \<mapsto>
             Document (JObj [(''timestamp'', JStr (save_stamp env2)),
                             (''operation'', JStr checkpoint_name),
                             (''data'', JObj [(''completed'', JInt n_iterations),
                                              (''total'', JInt n_iterations),
                                              (''last_batch_output'', out2)])]))\<rparr>)"
    and r2: "completed r2 = n_iterations" "remaining r2 = n_iterations - n_iterations"
      "can_continue r2 = (n_iterations < n_iterations)"
      "next_command r2 = (if n_iterations < n_iterations
                then Some (''run_chunked_operation(..., checkpoint_name='' @ [CHR 0x27] @ checkpoint_name @ [CHR 0x27] @ '')'')
                else None)"
    by blast
  define w2 where "w2 =
        w1\<lparr>sent := sent w1 @ [execute_request cfg (full_code setup_code loop_code n_iterations
                                 (str_int n_iterations) n_iterations)],
          files := (files w1)(get_checkpoint_path cfg (save_day env2) checkpoint_name \<mapsto>
             Document (JObj [(''timestamp'', JStr (save_stamp env2)),
                             (''operation'', JStr checkpoint_name),
                             (''data'', JObj [(''completed'', JInt n_iterations),
                                              (''total'', JInt n_iterations),
                                              (''last_batch_output'', out2)])]))\<rparr>"
  have s2: "sent w2 = sent w1 @ [execute_request cfg
               (full_code setup_code loop_code n_iterations (str_int n_iterations) n_iterations)]"
    by (simp add: w2_def)
  have s1: "sent w1 = sent w @ [execute_request cfg
               (full_code setup_code loop_code start (str_int start) n_iterations)]"
    by (simp add: w1_def)
  have same: "r2 = r1" if "transport env2 = transport env"
  proof -
    have "fst (run_chunked_operation cfg env2 setup_code loop_code n_iterations batch_size checkpoint_name w1)
        = fst (run_chunked_operation cfg env setup_code loop_code n_iterations batch_size checkpoint_name w)"
      unfolding run_result_from_reply [OF off2 assms(6), of setup_code loop_code n_iterations batch_size w]
        run_result_from_reply [OF assms(1) assms(5), of setup_code loop_code n_iterations batch_size w]
        e1 e2 that ..
    then show ?thesis by (simp add: run1 run2 w1_def [symmetric])
  qed
  have run1': "run_chunked_operation cfg env setup_code loop_code n_iterations batch_size
             checkpoint_name w = (Inr r1, w1)"
    by (simp add: run1 w1_def)
  have run2': "run_chunked_operation cfg env2 setup_code loop_code n_iterations batch_size
             checkpoint_name w1 = (Inr r2, w2)"
    by (simp add: run2 w2_def)
  from r1 r2 have rr: "can_continue r1 = False" "completed r1 = n_iterations" "remaining r1 = 0"
      "next_command r1 = None" "can_continue r2 = False" "completed r2 = n_iterations"
      "remaining r2 = 0" "next_command r2 = None"
    by simp_all
  from same have "if transport env2 = transport env then r2 = r1 else True" by simp
  with run1' run2' rr s1 s2 show ?thesis by blast
qed

theorem C3_resume_after_final_witness:
  "resume_offset example_config (load_day (on_day ''20260101'' (ok_reply []))) (files finished_world)
     ''job'' = Inr (JInt 5)
   \<and> (5::int) \<le> 5 \<and> (0::int) \<le> 5 \<and> (5::int) \<noteq> 0
   \<and> well_formed_reply (transport (on_day ''20260101'' (ok_reply [])))
   \<and> load_day (on_day ''20260101'' (ok_reply [])) = save_day (on_day ''20260101'' (ok_reply []))
   \<and> (\<exists>r1 w1 r2 w2.
         run_chunked_operation example_config (on_day ''20260101'' (ok_reply []))
           ''x=1'' ''print(i)'' 5 5 ''job'' finished_world = (Inr r1, w1)
       \<and> run_chunked_operation example_config (on_day ''20260101'' (ok_reply []))
           ''x=1'' ''print(i)'' 5 5 ''job'' w1 = (Inr r2, w2)
       \<and> can_continue r1 = False \<and> completed r1 = 5
       \<and> can_continue r2 = False \<and> completed r2 = 5
       \<and> length (sent w1) = 2 \<and> length (sent w2) = 3 \<and> r2 = r1)"
proof -
  have off: "resume_offset example_config (load_day (on_day ''20260101'' (ok_reply [])))
               (files finished_world) ''job'' = Inr (JInt 5)"
    by (simp add: on_day_def finished_world_offset)
  have wf: "well_formed_reply (transport (on_day ''20260101'' (ok_reply [])))"
    by (simp add: well_formed_failures on_day_def)
  have days: "load_day (on_day ''20260101'' (ok_reply [])) = save_day (on_day ''20260101'' (ok_reply []))"
    by (simp add: on_day_def)
  have a: "(5::int) \<le> 5" and b: "(0::int) \<le> 5" and c: "(5::int) \<noteq> 0" by simp_all
  from C3_resume_after_final [OF off a b c wf wf days, of "''x=1''" "''print(i)''"]
  obtain r1 w1 r2 w2 where
    "run_chunked_operation example_config (on_day ''20260101'' (ok_reply []))
           ''x=1'' ''print(i)'' 5 5 ''job'' finished_world = (Inr r1, w1)"
    "run_chunked_operation example_config (on_day ''20260101'' (ok_reply []))
           ''x=1'' ''print(i)'' 5 5 ''job'' w1 = (Inr r2, w2)"
    "can_continue r1 = False" "completed r1 = 5" "can_continue r2 = False" "completed r2 = 5"
    "length (sent w1) = 2" "length (sent w2) = 3" "r2 = r1"
    by (auto simp: finished_world_eval)
  then have "\<exists>r1 w1 r2 w2.
         run_chunked_operation example_config (on_day ''20260101'' (ok_reply []))
           ''x=1'' ''print(i)'' 5 5 ''job'' finished_world = (Inr r1, w1)
       \<and> run_chunked_operation example_config (on_day ''20260101'' (ok_reply []))
           ''x=1'' ''print(i)'' 5 5 ''job'' w1 = (Inr r2, w2)
       \<and> can_continue r1 = False \<and> completed r1 = 5
       \<and> can_continue r2 = False \<and> completed r2 = 5
       \<and> length (sent w1) = 2 \<and> length (sent w2) = 3 \<and> r2 = r1"
    by blast
  with off wf days show ?thesis by simp
qed

text \<open>
  C3 as first stated fails. With the checkpoint at 5 of 5, the call sends a second request,
  whose loop is over the empty range from 5 to 5; and with \<open>batch_size = - 2\<close> it returns
  \<open>completed = 3\<close> and \<open>can_continue = True\<close>.
\<close>

theorem C3_counterexample:
  \<open>resume_offset example_config ''20260101'' (files finished_world) ''job'' = Inr (JInt 5)
   \<and> length (sent finished_world) = 1
   \<and> length (sent (snd (run_chunked_operation example_config (on_day ''20260101'' (ok_reply []))
                          ''x=1'' ''print(i)'' 5 5 ''job'' finished_world))) = 2
   \<and> dispatched_code (snd (run_chunked_operation example_config (on_day ''20260101'' (ok_reply []))
                          ''x=1'' ''print(i)'' 5 5 ''job'' finished_world))
       = Some (JStr (''\<newline># Resuming chunked execution: iterations 5 to 4\<newline>''
                     @ ''for i in range(5, 5):\<newline>''
                     @ ''    print(i)\<newline>\<newline>''
                     @ ''print(f"Completed iterations 5 to 4")\<newline>''))
   \<and> progress_of (fst (run_chunked_operation example_config (on_day ''20260101'' (ok_reply []))
                          ''x=1'' ''print(i)'' 5 (- 2) ''job'' finished_world)) = Some (3, True)\<close>
proof -
  have op: "int_operand (JInt 5) = Inr (5, str_int 5)" by simp
  have off: "resume_offset example_config (load_day (on_day ''20260101'' (ok_reply [])))
               (files finished_world) ''job'' = Inr (JInt 5)"
    by (simp add: on_day_def finished_world_offset)
  have "sent (snd (run_chunked_operation example_config (on_day ''20260101'' (ok_reply []))
                          ''x=1'' ''print(i)'' 5 5 ''job'' finished_world))
        = sent finished_world @ [execute_request example_config (full_code ''x=1'' ''print(i)'' 5 (str_int 5) 5)]"
    using run_sends [OF off op, of "''x=1''" "''print(i)''" 5 5] by simp
  then have a: \<open>length (sent (snd (run_chunked_operation example_config (on_day ''20260101'' (ok_reply []))
                          ''x=1'' ''print(i)'' 5 5 ''job'' finished_world))) = 2
   \<and> dispatched_code (snd (run_chunked_operation example_config (on_day ''20260101'' (ok_reply []))
                          ''x=1'' ''print(i)'' 5 5 ''job'' finished_world))
       = Some (JStr (''\<newline># Resuming chunked execution: iterations 5 to 4\<newline>''
                     @ ''for i in range(5, 5):\<newline>''
                     @ ''    print(i)\<newline>\<newline>''
                     @ ''print(f"Completed iterations 5 to 4")\<newline>''))\<close>
    using finished_world_eval(2)
    by (cases "sent finished_world")
       (simp_all add: dispatched_code_def execute_request_def full_code_def str_int_examples)
  have wf: "well_formed_reply (transport (on_day ''20260101'' (ok_reply [])))"
    by (simp add: well_formed_failures on_day_def)
  have n0: "(5::int) \<noteq> 0" by simp
  from run_step [OF off wf n0, of "''x=1''" "''print(i)''" "- 2"]
  have b: "progress_of (fst (run_chunked_operation example_config (on_day ''20260101'' (ok_reply []))
                          ''x=1'' ''print(i)'' 5 (- 2) ''job'' finished_world)) = Some (3, True)"
    by (auto simp: progress_of_def)
  from a b show ?thesis
    by (simp add: finished_world_offset finished_world_eval(2))
qed


section \<open>Running a job to its end\<close>





section \<open>Exceptions that escape\<close>

text \<open>
  C5 (the code fails it). With \<open>n_iterations = 0\<close> the call sends its request, saves the
  checkpoint and then raises ZeroDivisionError while it builds the result; and a checkpoint
  file that \<^verbatim>\<open>json.load\<close> cannot read makes \<^verbatim>\<open>get_checkpoint\<close> and
  \<^verbatim>\<open>run_chunked_operation\<close> raise JSONDecodeError. No result object is returned.
\<close>

theorem C5_unhandled_errors:
  "fst (run_chunked_operation example_config (on_day ''20260101'' (ok_reply []))
          ''x=1'' ''print(i)'' 0 10 ''chunked_op'' empty_world) = Inl ZeroDivisionError
   \<and> length (sent (snd (run_chunked_operation example_config (on_day ''20260101'' (ok_reply []))
          ''x=1'' ''print(i)'' 0 10 ''chunked_op'' empty_world))) = 1
   \<and> saved_completed
        (files (snd (run_chunked_operation example_config (on_day ''20260101'' (ok_reply []))
                       ''x=1'' ''print(i)'' 0 10 ''chunked_op'' empty_world))
           (get_checkpoint_path example_config ''20260101'' ''chunked_op'')) = Some (JInt 0)
   \<and> get_checkpoint example_config ''20260101'' (files torn_world) ''job'' = Inl JSONDecodeError
   \<and> fst (run_chunked_operation example_config (on_day ''20260101'' (ok_reply []))
          ''x=1'' ''print(i)'' 25 10 ''job'' torn_world) = Inl JSONDecodeError"
  by (simp add: example_config_def on_day_def empty_world_def ok_reply_def torn_world_def
        run_chunked_operation_def get_checkpoint_def
        load_checkpoint_def start_idx_of_def make_request_def last_batch_output_def subscript_def
        save_checkpoint_def saved_completed_def chunk_return_def output_of_def dict_get_def Let_def)


section \<open>Checkpoint round trip\<close>




section \<open>The code sent for a batch\<close>

text \<open>
  C7 (the code fails it). For the call of the docstring's own kind, with
  \<^verbatim>\<open>loop_code = "print({i})"\<close>, two iterations and a batch of two, the code sent holds the
  text of \<^verbatim>\<open>loop_code\<close> once, as the body of a \<^verbatim>\<open>for\<close> loop, with \<^verbatim>\<open>{i}\<close> still
  in it: no index is written in its place, and there is not one copy for each index.
\<close>

theorem C7_loop_code_verbatim:
  \<open>dispatched_code
     (snd (run_chunked_operation example_config (on_day ''20260101'' (ok_reply []))
             ''x=1'' ''print({i})'' 2 2 ''job'' empty_world))
   = Some (JStr (''\<newline>x=1\<newline>\<newline>''
                 @ ''# Chunked execution: iterations 0 to 1\<newline>''
                 @ ''for i in range(0, 2):\<newline>''
                 @ ''    print({i})\<newline>\<newline>''
                 @ ''print(f"Completed iterations 0 to 1")\<newline>''))\<close>
proof -
  have op: "int_operand (JInt 0) = Inr (0, str_int 0)" by simp
  have wf: "well_formed_reply (transport (on_day ''20260101'' (ok_reply [])))"
    by (simp add: well_formed_failures on_day_def)
  have off: "resume_offset example_config (load_day (on_day ''20260101'' (ok_reply [])))
               (files empty_world) ''job'' = Inr (JInt 0)"
    by (simp add: resume_offset_absent empty_world_def)
  from run_reaches_save [OF off op wf, of "''x=1''" "''print({i})''" 2 2]
  have "sent (snd (run_chunked_operation example_config (on_day ''20260101'' (ok_reply []))
                          ''x=1'' ''print({i})'' 2 2 ''job'' empty_world))
        = sent empty_world @ [execute_request example_config (full_code ''x=1'' ''print({i})'' 0 (str_int 0) 2)]"
    by auto
  then show ?thesis
    by (simp add: empty_world_def dispatched_code_def execute_request_def full_code_def
          str_int_examples)
qed

text \<open>
  C8. In a call that reaches its dispatch (the offset it loads is an integer or a boolean),
  the code sent begins (after a newline) with \<^verbatim>\<open>setup_code\<close>, put before the comment
  and the \<^verbatim>\<open>for\<close> loop of the range, exactly when the offset it resumes from equals 0; from any
  other offset the code sent is the comment and the loop alone, the same text whatever
  \<^verbatim>\<open>setup_code\<close> is.
\<close>

theorem C8_setup_only_at_zero:
  assumes "resume_offset cfg (load_day env) (files w) checkpoint_name = Inr start_idx"
    and "int_operand start_idx = Inr (start_val, start_txt)"
  shows \<open>\<exists>loop_lines.
           loop_lines =
             '': iterations '' @ start_txt @ '' to ''
             @ str_int (min (start_val + batch_size) n_iterations - 1) @ ''\<newline>''
             @ ''for i in range('' @ start_txt @ '', ''
             @ str_int (min (start_val + batch_size) n_iterations) @ ''):\<newline>''
             @ ''    '' @ loop_code @ ''\<newline>\<newline>''
             @ ''print(f"Completed iterations '' @ start_txt @ '' to ''
             @ str_int (min (start_val + batch_size) n_iterations - 1) @ ''")\<newline>''
         \<and> (\<forall>setup_code.
               dispatched_code
                 (snd (run_chunked_operation cfg env setup_code loop_code n_iterations batch_size
                         checkpoint_name w))
               = Some (JStr (if start_val = 0
                             then ''\<newline>'' @ setup_code @ ''\<newline>\<newline>''
                                  @ ''# Chunked execution'' @ loop_lines
                             else ''\<newline># Resuming chunked execution'' @ loop_lines)))\<close>
proof -
  have "dispatched_code
          (snd (run_chunked_operation cfg env setup_code loop_code n_iterations batch_size
                  checkpoint_name w))
        = Some (JStr (full_code setup_code loop_code start_val start_txt
                        (min (start_val + batch_size) n_iterations)))" for setup_code
    by (simp add: run_sends [OF assms] dispatched_code_def execute_request_def)
  then show ?thesis
    by (simp add: full_code_def)
qed


theorem C8_setup_only_at_zero_witness:
  \<open>resume_offset example_config (load_day (on_day ''20260101'' Raised_Timeout))
      (files empty_world) ''job'' = Inr (JInt 0)
   \<and> int_operand (JInt 0) = Inr (0, ''0'')
   \<and> (\<forall>setup_code.
         dispatched_code
           (snd (run_chunked_operation example_config (on_day ''20260101'' Raised_Timeout)
                   setup_code ''print(i)'' 25 10 ''job'' empty_world))
         = Some (JStr (''\<newline>'' @ setup_code @ ''\<newline>\<newline>''
                       @ ''# Chunked execution: iterations 0 to 9\<newline>''
                       @ ''for i in range(0, 10):\<newline>''
                       @ ''    print(i)\<newline>\<newline>''
                       @ ''print(f"Completed iterations 0 to 9")\<newline>'')))
   \<and> resume_offset example_config (load_day (on_day ''20260101'' (ok_reply [])))
      (files finished_world) ''job'' = Inr (JInt 5)
   \<and> int_operand (JInt 5) = Inr (5, ''5'')
   \<and> (\<forall>setup_code.
         dispatched_code
           (snd (run_chunked_operation example_config (on_day ''20260101'' (ok_reply []))
                   setup_code ''print(i)'' 25 10 ''job'' finished_world))
         = Some (JStr (''\<newline># Resuming chunked execution: iterations 5 to 14\<newline>''
                       @ ''for i in range(5, 15):\<newline>''
                       @ ''    print(i)\<newline>\<newline>''
                       @ ''print(f"Completed iterations 5 to 14")\<newline>'')))\<close>
proof -
  have off0: "resume_offset example_config (load_day (on_day ''20260101'' Raised_Timeout))
               (files empty_world) ''job'' = Inr (JInt 0)"
    by (simp add: resume_offset_absent empty_world_def)
  have op0: "int_operand (JInt 0) = Inr (0, ''0'')"
    by (simp add: str_int_examples)
  have off5: "resume_offset example_config (load_day (on_day ''20260101'' (ok_reply [])))
               (files finished_world) ''job'' = Inr (JInt 5)"
    by (simp add: on_day_def finished_world_offset)
  have op5: "int_operand (JInt 5) = Inr (5, ''5'')"
    by (simp add: str_int_examples)
  have s: "str_int 14 = ''14''" "str_int 15 = ''15''" by code_simp+
  from C8_setup_only_at_zero [OF off0 op0, of 10 25 "''print(i)''"]
  have first: \<open>\<forall>setup_code.
         dispatched_code
           (snd (run_chunked_operation example_config (on_day ''20260101'' Raised_Timeout)
                   setup_code ''print(i)'' 25 10 ''job'' empty_world))
         = Some (JStr (''\<newline>'' @ setup_code @ ''\<newline>\<newline>''
                       @ ''# Chunked execution: iterations 0 to 9\<newline>''
                       @ ''for i in range(0, 10):\<newline>''
                       @ ''    print(i)\<newline>\<newline>''
                       @ ''print(f"Completed iterations 0 to 9")\<newline>''))\<close>
    by (simp add: str_int_examples)
  from C8_setup_only_at_zero [OF off5 op5, of 10 25 "''print(i)''"] s
  have later: \<open>\<forall>setup_code.
         dispatched_code
           (snd (run_chunked_operation example_config (on_day ''20260101'' (ok_reply []))
                   setup_code ''print(i)'' 25 10 ''job'' finished_world))
         = Some (JStr (''\<newline># Resuming chunked execution: iterations 5 to 14\<newline>''
                       @ ''for i in range(5, 15):\<newline>''
                       @ ''    print(i)\<newline>\<newline>''
                       @ ''print(f"Completed iterations 5 to 14")\<newline>''))\<close>
    by simp
  from off0 op0 first off5 op5 later show ?thesis by blast
qed


section \<open>Timeouts\<close>

text \<open>
  C9. When the transport raises \<^verbatim>\<open>Timeout\<close>, \<^verbatim>\<open>make_request\<close> returns the result
  marked \<^verbatim>\<open>TIMEOUT\<close>, and the number in its message is the \<^verbatim>\<open>timeout\<close> argument of the
  call: calls with different deadlines get different messages. No measured time enters the
  result.
\<close>

theorem C9_timeout_carries_deadline:
  "fst (make_request cfg Raised_Timeout method endpoint timeout body w)
     = [(''success'', JBool False),
        (''error'', JStr ''TIMEOUT''),
        (''suggestion'', JStr (''Operation took longer than '' @ str_int timeout @ ''s''))]
   \<and> (fst (make_request cfg Raised_Timeout method endpoint timeout body w)
        = fst (make_request cfg Raised_Timeout method endpoint timeout' body w))
       = (timeout = timeout')"
  by (simp add: make_request_def Let_def str_int_inject)

theorem C9_timeout_carries_deadline_witness:
  "fst (make_request example_config Raised_Timeout ''POST'' ''/execute'' (TIMEOUTS Long + 30) None
          empty_world)
     = [(''success'', JBool False),
        (''error'', JStr ''TIMEOUT''),
        (''suggestion'', JStr ''Operation took longer than 330s'')]"
  using C9_timeout_carries_deadline [of example_config "''POST''" "''/execute''" "TIMEOUTS Long + 30"
          None empty_world, THEN conjunct1]
  by (simp add: str_int_examples)


section \<open>The default checkpoint name\<close>



end
